theory Spec2Isabelle
  imports Complex_Main "HOL-Library.AList" "HOL-Library.Sublist"
begin

section \<open>Values and dictionaries\<close>

text \<open>
  Request bodies, stored documents and responses are Python values built from JSON:
  \<open>None\<close>, booleans, integers, floats, strings, lists and dictionaries. A stored document
  also carries the identifier the database assigned to it, an \<open>ObjectId\<close>, which is not a
  JSON value: \<open>JOid\<close>. Floats are only stored and returned, never computed with, and
  are represented by the number they denote.

  A Python \<open>dict\<close> is an association list in insertion order: \<open>d[k]\<close> is
  \<open>map_of d k\<close>, \<open>d[k] = v\<close> is \<open>AList.update k v d\<close> (an existing key keeps its
  place, a new key goes last) and removing a key is \<open>AList.delete k d\<close>.
\<close>

datatype jvalue =
    JNull
  | JBool bool
  | JInt int
  | JFloat real
  | JStr string
  | JList "jvalue list"
  | JObj "(string \<times> jvalue) list"
  | JOid nat

type_synonym dict = "(string \<times> jvalue) list"

section \<open>Errors\<close>

text \<open>
  Every way a request can fail is a value. A \<open>ValidationError\<close> lists each violated
  field with its location (a field name, or an index into a list) and the kind of
  violation. \<open>HTTPException\<close> is the exception \<open>main.py\<close> raises itself,
  \<open>KeyError\<close> is what \<open>dict.pop\<close> raises on a missing key, \<open>StoreUnavailable\<close> is
  the adapter called without a database connection. \<open>NotModelled\<close> marks behaviour of
  a library that this development does not describe (a regular expression operator
  other than the dot, \<open>str\<close> of a value that is not an identifier).
\<close>

datatype loc_item = Fld string | Idx nat

datatype err_kind =
    Missing
  | StringType
  | IntType
  | FloatType
  | ListType
  | ModelType
  | GreaterThanEqual int
  | LessThanEqual int

type_synonym verr = "loc_item list \<times> err_kind"

datatype error =
    ValidationError "verr list"
  | HTTPException nat string
  | KeyError string
  | StoreUnavailable
  | NotModelled string

section \<open>Schemas (\<open>schemas.py\<close>)\<close>

text \<open>
  Each Pydantic model is a record of its declared fields. The fields \<open>date\<close>,
  \<open>title\<close>, \<open>color\<close>, \<open>size\<close>, \<open>x\<close> and \<open>y\<close> occur in several models, so every
  field name is prefixed with its model's initial.
\<close>

record Journal =
  j_title :: string
  j_cover_style :: string
  j_paper_style :: string
  j_owner :: "string option"

record JournalPage =
  p_journal_id :: string
  p_date :: string
  p_content :: string
  p_font :: string
  p_font_size :: int
  p_color :: string
  p_alignment :: string
  p_background :: "string option"

record CalendarEvent =
  e_date :: string
  e_title :: string
  e_highlight :: "string option"
  e_emoji :: "string option"

record Sticker =
  s_date :: string
  s_category :: string
  s_label :: string
  s_x :: real
  s_y :: real
  s_size :: real

record StrokePoint =
  sp_x :: real
  sp_y :: real
  sp_p :: "real option"
  sp_t :: "real option"

record Drawing =
  d_date :: string
  d_tool :: string
  d_color :: string
  d_size :: real
  d_points :: "StrokePoint list"

subsection \<open>Field validators\<close>

text \<open>
  A field declared \<open>Field(...)\<close> is required; a field declared with a default takes
  the default when the key is absent. A value that is present must have the declared
  primitive type: a string for \<open>str\<close>, an integer for \<open>int\<close>, an integer or a float
  for \<open>float\<close>, and \<open>None\<close> as well for an \<open>Optional\<close> field. \<open>ge\<close> and \<open>le\<close>
  bound an integer field on both sides, inclusively. Keys that no field declares are
  ignored. The validators describe bodies whose values have the declared JSON types;
  the library's lenient conversions between primitive types (a numeric string or a
  whole float given for an \<open>int\<close>) are outside this description, which rejects such
  a value as a type error.
\<close>

definition str_value :: "loc_item list \<Rightarrow> jvalue \<Rightarrow> verr list + string" where
  "str_value l v = (case v of JStr s \<Rightarrow> Inr s | _ \<Rightarrow> Inl [(l, StringType)])"

definition float_value :: "loc_item list \<Rightarrow> jvalue \<Rightarrow> verr list + real" where
  "float_value l v =
     (case v of JFloat r \<Rightarrow> Inr r | JInt n \<Rightarrow> Inr (of_int n) | _ \<Rightarrow> Inl [(l, FloatType)])"

definition int_value :: "loc_item list \<Rightarrow> int \<Rightarrow> int \<Rightarrow> jvalue \<Rightarrow> verr list + int" where
  "int_value l lo hi v =
     (case v of
        JInt n \<Rightarrow>
          (if n < lo then Inl [(l, GreaterThanEqual lo)]
           else if hi < n then Inl [(l, LessThanEqual hi)]
           else Inr n)
      | _ \<Rightarrow> Inl [(l, IntType)])"

definition required ::
  "(loc_item list \<Rightarrow> jvalue \<Rightarrow> verr list + 'a) \<Rightarrow> loc_item list \<Rightarrow> dict \<Rightarrow> string \<Rightarrow> verr list + 'a"
where
  "required vf l d k =
     (case map_of d k of None \<Rightarrow> Inl [(l @ [Fld k], Missing)] | Some v \<Rightarrow> vf (l @ [Fld k]) v)"

definition with_default ::
  "(loc_item list \<Rightarrow> jvalue \<Rightarrow> verr list + 'a) \<Rightarrow> 'a \<Rightarrow> loc_item list \<Rightarrow> dict \<Rightarrow> string \<Rightarrow> verr list + 'a"
where
  "with_default vf dflt l d k =
     (case map_of d k of None \<Rightarrow> Inr dflt | Some v \<Rightarrow> vf (l @ [Fld k]) v)"

definition optional ::
  "(loc_item list \<Rightarrow> jvalue \<Rightarrow> verr list + 'a) \<Rightarrow> loc_item list \<Rightarrow> dict \<Rightarrow> string \<Rightarrow> verr list + 'a option"
where
  "optional vf l d k =
     (case map_of d k of
        None \<Rightarrow> Inr None
      | Some JNull \<Rightarrow> Inr None
      | Some v \<Rightarrow> (case vf (l @ [Fld k]) v of Inl es \<Rightarrow> Inl es | Inr a \<Rightarrow> Inr (Some a)))"

definition errs :: "verr list + 'a \<Rightarrow> verr list" where
  "errs r = (case r of Inl es \<Rightarrow> es | Inr _ \<Rightarrow> [])"

subsection \<open>Model validators\<close>

definition validate_Journal :: "jvalue \<Rightarrow> verr list + Journal" where
  "validate_Journal body =
     (case body of
        JObj d \<Rightarrow>
          (let title = required str_value [] d ''title'';
               cover_style = with_default str_value ''pastel-pink'' [] d ''cover_style'';
               paper_style = with_default str_value ''dotted'' [] d ''paper_style'';
               owner = optional str_value [] d ''owner''
           in case (title, cover_style, paper_style, owner) of
                (Inr t, Inr c, Inr p, Inr ow) \<Rightarrow>
                  Inr \<lparr>j_title = t, j_cover_style = c, j_paper_style = p, j_owner = ow\<rparr>
              | _ \<Rightarrow> Inl (errs title @ errs cover_style @ errs paper_style @ errs owner))
      | _ \<Rightarrow> Inl [([], ModelType)])"

definition validate_JournalPage :: "jvalue \<Rightarrow> verr list + JournalPage" where
  "validate_JournalPage body =
     (case body of
        JObj d \<Rightarrow>
          (let journal_id = required str_value [] d ''journal_id'';
               date = required str_value [] d ''date'';
               content = with_default str_value '''' [] d ''content'';
               font = with_default str_value ''Inter'' [] d ''font'';
               font_size = with_default (\<lambda>l. int_value l 8 64) 16 [] d ''font_size'';
               color = with_default str_value ''#1f2937'' [] d ''color'';
               alignment = with_default str_value ''left'' [] d ''alignment'';
               background = optional str_value [] d ''background''
           in case (journal_id, date, content, font, font_size, color, alignment, background) of
                (Inr j, Inr dt, Inr c, Inr f, Inr fs, Inr co, Inr a, Inr b) \<Rightarrow>
                  Inr \<lparr>p_journal_id = j, p_date = dt, p_content = c, p_font = f,
                       p_font_size = fs, p_color = co, p_alignment = a, p_background = b\<rparr>
              | _ \<Rightarrow>
                  Inl (errs journal_id @ errs date @ errs content @ errs font @ errs font_size
                       @ errs color @ errs alignment @ errs background))
      | _ \<Rightarrow> Inl [([], ModelType)])"

definition validate_CalendarEvent :: "jvalue \<Rightarrow> verr list + CalendarEvent" where
  "validate_CalendarEvent body =
     (case body of
        JObj d \<Rightarrow>
          (let date = required str_value [] d ''date'';
               title = required str_value [] d ''title'';
               highlight = optional str_value [] d ''highlight'';
               emoji = optional str_value [] d ''emoji''
           in case (date, title, highlight, emoji) of
                (Inr dt, Inr t, Inr h, Inr e) \<Rightarrow>
                  Inr \<lparr>e_date = dt, e_title = t, e_highlight = h, e_emoji = e\<rparr>
              | _ \<Rightarrow> Inl (errs date @ errs title @ errs highlight @ errs emoji))
      | _ \<Rightarrow> Inl [([], ModelType)])"

definition validate_Sticker :: "jvalue \<Rightarrow> verr list + Sticker" where
  "validate_Sticker body =
     (case body of
        JObj d \<Rightarrow>
          (let date = required str_value [] d ''date'';
               category = with_default str_value ''decor'' [] d ''category'';
               label = required str_value [] d ''label'';
               x = with_default float_value 0 [] d ''x'';
               y = with_default float_value 0 [] d ''y'';
               size = with_default float_value 1 [] d ''size''
           in case (date, category, label, x, y, size) of
                (Inr dt, Inr c, Inr lb, Inr x', Inr y', Inr sz) \<Rightarrow>
                  Inr \<lparr>s_date = dt, s_category = c, s_label = lb, s_x = x', s_y = y', s_size = sz\<rparr>
              | _ \<Rightarrow>
                  Inl (errs date @ errs category @ errs label @ errs x @ errs y @ errs size))
      | _ \<Rightarrow> Inl [([], ModelType)])"

definition validate_StrokePoint :: "loc_item list \<Rightarrow> jvalue \<Rightarrow> verr list + StrokePoint" where
  "validate_StrokePoint l v =
     (case v of
        JObj d \<Rightarrow>
          (let x = required float_value l d ''x'';
               y = required float_value l d ''y'';
               p = optional float_value l d ''p'';
               t = optional float_value l d ''t''
           in case (x, y, p, t) of
                (Inr x', Inr y', Inr p', Inr t') \<Rightarrow>
                  Inr \<lparr>sp_x = x', sp_y = y', sp_p = p', sp_t = t'\<rparr>
              | _ \<Rightarrow> Inl (errs x @ errs y @ errs p @ errs t))
      | _ \<Rightarrow> Inl [(l, ModelType)])"

text \<open>
  The items of a list field are validated one by one, each at its index; the errors of
  all items are collected.
\<close>

fun validate_points :: "loc_item list \<Rightarrow> nat \<Rightarrow> jvalue list \<Rightarrow> verr list + StrokePoint list" where
  "validate_points l i [] = Inr []"
| "validate_points l i (v # vs) =
     (case (validate_StrokePoint (l @ [Idx i]) v, validate_points l (Suc i) vs) of
        (Inr pt, Inr pts) \<Rightarrow> Inr (pt # pts)
      | (r, rs) \<Rightarrow> Inl (errs r @ errs rs))"

definition points_value :: "loc_item list \<Rightarrow> jvalue \<Rightarrow> verr list + StrokePoint list" where
  "points_value l v = (case v of JList vs \<Rightarrow> validate_points l 0 vs | _ \<Rightarrow> Inl [(l, ListType)])"

definition validate_Drawing :: "jvalue \<Rightarrow> verr list + Drawing" where
  "validate_Drawing body =
     (case body of
        JObj d \<Rightarrow>
          (let date = required str_value [] d ''date'';
               tool = with_default str_value ''pen'' [] d ''tool'';
               color = with_default str_value ''#111827'' [] d ''color'';
               size = with_default float_value 2 [] d ''size'';
               points = with_default points_value [] [] d ''points''
           in case (date, tool, color, size, points) of
                (Inr dt, Inr tool', Inr c, Inr sz, Inr pts) \<Rightarrow>
                  Inr \<lparr>d_date = dt, d_tool = tool', d_color = c, d_size = sz, d_points = pts\<rparr>
              | _ \<Rightarrow> Inl (errs date @ errs tool @ errs color @ errs size @ errs points))
      | _ \<Rightarrow> Inl [([], ModelType)])"

subsection \<open>Serialisation of a validated model\<close>

text \<open>
  \<open>model_dump\<close>: the dictionary of a model's fields, in declaration order, a nested
  model as a nested dictionary, an absent optional value as \<open>None\<close>.
\<close>

definition dump_opt :: "('a \<Rightarrow> jvalue) \<Rightarrow> 'a option \<Rightarrow> jvalue" where
  "dump_opt f v = (case v of None \<Rightarrow> JNull | Some a \<Rightarrow> f a)"

definition dump_Journal :: "Journal \<Rightarrow> dict" where
  "dump_Journal j =
     [(''title'', JStr (j_title j)), (''cover_style'', JStr (j_cover_style j)),
      (''paper_style'', JStr (j_paper_style j)), (''owner'', dump_opt JStr (j_owner j))]"

definition dump_JournalPage :: "JournalPage \<Rightarrow> dict" where
  "dump_JournalPage p =
     [(''journal_id'', JStr (p_journal_id p)), (''date'', JStr (p_date p)),
      (''content'', JStr (p_content p)), (''font'', JStr (p_font p)),
      (''font_size'', JInt (p_font_size p)), (''color'', JStr (p_color p)),
      (''alignment'', JStr (p_alignment p)), (''background'', dump_opt JStr (p_background p))]"

definition dump_CalendarEvent :: "CalendarEvent \<Rightarrow> dict" where
  "dump_CalendarEvent e =
     [(''date'', JStr (e_date e)), (''title'', JStr (e_title e)),
      (''highlight'', dump_opt JStr (e_highlight e)), (''emoji'', dump_opt JStr (e_emoji e))]"

definition dump_Sticker :: "Sticker \<Rightarrow> dict" where
  "dump_Sticker s =
     [(''date'', JStr (s_date s)), (''category'', JStr (s_category s)),
      (''label'', JStr (s_label s)), (''x'', JFloat (s_x s)), (''y'', JFloat (s_y s)),
      (''size'', JFloat (s_size s))]"

definition dump_StrokePoint :: "StrokePoint \<Rightarrow> dict" where
  "dump_StrokePoint pt =
     [(''x'', JFloat (sp_x pt)), (''y'', JFloat (sp_y pt)),
      (''p'', dump_opt JFloat (sp_p pt)), (''t'', dump_opt JFloat (sp_t pt))]"

definition dump_Drawing :: "Drawing \<Rightarrow> dict" where
  "dump_Drawing dr =
     [(''date'', JStr (d_date dr)), (''tool'', JStr (d_tool dr)),
      (''color'', JStr (d_color dr)), (''size'', JFloat (d_size dr)),
      (''points'', JList (map (\<lambda>pt. JObj (dump_StrokePoint pt)) (d_points dr)))]"

section \<open>The document store (\<open>database.py\<close>)\<close>

text \<open>
  Modelled from the spec: the database behind \<open>database.py\<close>, which is not among the
  sources. The store holds, for each collection name, its documents in insertion
  order, and the number of identifiers it has handed out, so that every insert gets a
  fresh one. The module's global \<open>db\<close> is \<open>None\<close> when no connection was made.
\<close>

record store =
  next_oid :: nat
  colls :: "string \<Rightarrow> dict list"

type_synonym database = "store option"

definition empty_store :: store where
  "empty_store = \<lparr>next_oid = 0, colls = (\<lambda>_. [])\<rparr>"

text \<open>
  Modelled from the spec: an identifier leaves the store as an opaque string. The
  \<open>n\<close>-th identifier is the number \<open>n\<close>; its string is made of 24 hexadecimal digits,
  as \<open>str\<close> of an \<open>ObjectId\<close> is.
\<close>

definition hex_digit :: "nat \<Rightarrow> char" where
  "hex_digit n = ''0123456789abcdef'' ! n"

fun hex :: "nat \<Rightarrow> string" where
  "hex n = (if n < 16 then [hex_digit n] else hex (n div 16) @ [hex_digit (n mod 16)])"

declare hex.simps [simp del]

definition oid_str :: "nat \<Rightarrow> string" where
  "oid_str n = (let h = hex n in replicate (24 - length h) (CHR ''0'') @ h)"

subsection \<open>Regular expressions of a filter\<close>

text \<open>
  A filter value \<open>{"$regex": p}\<close> is matched by the database's regular expression
  engine, which searches the field for the pattern. The fragment described here is an
  optional anchor \<open>^\<close> at the start, followed by ordinary characters, which match
  themselves, and dots, which match any character but a newline. A pattern with any
  other metacharacter is outside the fragment (\<open>rx_compile\<close> gives \<open>None\<close>).
\<close>

datatype rx_atom = Lit char | AnyChar

definition metachars :: "char list" where
  "metachars = CHR 0x5C # ''^$.|?*+()[]{}''"

fun rx_atoms :: "string \<Rightarrow> rx_atom list option" where
  "rx_atoms [] = Some []"
| "rx_atoms (c # cs) =
     (if c = CHR ''.'' then map_option ((#) AnyChar) (rx_atoms cs)
      else if c \<in> set metachars then None
      else map_option ((#) (Lit c)) (rx_atoms cs))"

definition rx_compile :: "string \<Rightarrow> (bool \<times> rx_atom list) option" where
  "rx_compile p =
     (case p of
        c # cs \<Rightarrow>
          (if c = CHR ''^'' then map_option (Pair True) (rx_atoms cs)
           else map_option (Pair False) (rx_atoms p))
      | [] \<Rightarrow> Some (False, []))"

fun rx_match_here :: "rx_atom list \<Rightarrow> string \<Rightarrow> bool" where
  "rx_match_here [] s = True"
| "rx_match_here (a # as) [] = False"
| "rx_match_here (Lit c # as) (x # xs) = (c = x \<and> rx_match_here as xs)"
| "rx_match_here (AnyChar # as) (x # xs) = (x \<noteq> CHR 0x0A \<and> rx_match_here as xs)"

fun rx_search :: "rx_atom list \<Rightarrow> string \<Rightarrow> bool" where
  "rx_search as [] = rx_match_here as []"
| "rx_search as (x # xs) = (rx_match_here as (x # xs) \<or> rx_search as xs)"

definition regex_search :: "string \<Rightarrow> string \<Rightarrow> bool option" where
  "regex_search p s =
     (case rx_compile p of
        None \<Rightarrow> None
      | Some (anchored, as) \<Rightarrow> Some (if anchored then rx_match_here as s else rx_search as s))"

subsection \<open>Filters\<close>

text \<open>
  Modelled from the spec: a filter maps a field name to an exact-match string or to a
  pattern, which \<open>main.py\<close> writes \<open>{"$regex": p}\<close>; a document matches when each
  named field is a string that the value accepts.
\<close>

datatype fval = Exact string | Regex string

type_synonym query = "(string \<times> fval) list"

definition fval_modelled :: "fval \<Rightarrow> bool" where
  "fval_modelled v = (case v of Exact _ \<Rightarrow> True | Regex p \<Rightarrow> rx_compile p \<noteq> None)"

definition fval_accepts :: "fval \<Rightarrow> jvalue \<Rightarrow> bool" where
  "fval_accepts v x =
     (case x of
        JStr s \<Rightarrow> (case v of Exact y \<Rightarrow> s = y | Regex p \<Rightarrow> regex_search p s = Some True)
      | _ \<Rightarrow> False)"

definition matches :: "query \<Rightarrow> dict \<Rightarrow> bool" where
  "matches filt doc =
     list_all (\<lambda>(k, v). case map_of doc k of None \<Rightarrow> False | Some x \<Rightarrow> fval_accepts v x) filt"

subsection \<open>The two adapter operations\<close>

text \<open>
  Modelled from the spec: \<open>database.py\<close>, which defines \<open>db\<close>, \<open>create_document\<close> and
  \<open>get_documents\<close>, is not among the sources. \<open>create_document\<close> serialises the
  validated record to a storage document, inserts it into the named collection and
  returns the newly assigned identifier as a string; it fails with
  \<open>StoreUnavailable\<close> if no database connection exists. The caller passes the
  serialised record (\<open>dump_Journal\<close> and its siblings).
\<close>

definition create_document :: "database \<Rightarrow> string \<Rightarrow> dict \<Rightarrow> error + (string \<times> store)" where
  "create_document db collection_name data =
     (case db of
        None \<Rightarrow> Inl StoreUnavailable
      | Some s \<Rightarrow>
          (let oid = next_oid s;
               stored = AList.update ''_id'' (JOid oid) data
           in Inr (oid_str oid,
                   s\<lparr>next_oid := Suc oid,
                     colls := (colls s)(collection_name := colls s collection_name @ [stored])\<rparr>)))"

text \<open>
  Modelled from the spec: \<open>get_documents\<close> executes a filter query against the named
  collection, optionally capped at \<open>limit\<close> results (no cap: unbounded), and returns
  the matching documents in storage order, which is insertion order. The documents
  carry the internal identifier under \<open>_id\<close>: \<open>main.py\<close> renames it. It fails with
  \<open>StoreUnavailable\<close> if no database connection exists. Write and query errors of a
  connected database are faults of the environment and are left out.
\<close>

definition get_documents :: "database \<Rightarrow> string \<Rightarrow> query \<Rightarrow> nat option \<Rightarrow> error + dict list" where
  "get_documents db collection_name filt limit =
     (case db of
        None \<Rightarrow> Inl StoreUnavailable
      | Some s \<Rightarrow>
          (if \<not> list_all (\<lambda>(k, v). fval_modelled v) filt then Inl (NotModelled ''$regex'')
           else
             (let found = filter (matches filt) (colls s collection_name)
              in Inr (case limit of None \<Rightarrow> found | Some n \<Rightarrow> take n found))))"

section \<open>The routes (\<open>main.py\<close>)\<close>

subsection \<open>Exposing the identifier\<close>

text \<open>
  Every read route ends with \<open>it["id"] = str(it.pop("_id"))\<close> on each document it
  returns: the right-hand side runs first, so a document without \<open>_id\<close> raises
  \<open>KeyError\<close> before anything is stored under \<open>id\<close>. \<open>str\<close> is described for an
  \<open>ObjectId\<close> and for a string.
\<close>

definition py_str :: "jvalue \<Rightarrow> string option" where
  "py_str v = (case v of JOid n \<Rightarrow> Some (oid_str n) | JStr s \<Rightarrow> Some s | _ \<Rightarrow> None)"

definition expose_id :: "dict \<Rightarrow> error + dict" where
  "expose_id it =
     (case map_of it ''_id'' of
        None \<Rightarrow> Inl (KeyError ''_id'')
      | Some v \<Rightarrow>
          (case py_str v of
             None \<Rightarrow> Inl (NotModelled ''str'')
           | Some s \<Rightarrow> Inr (AList.update ''id'' (JStr s) (AList.delete ''_id'' it))))"

text \<open>The loop \<open>for it in items: it["id"] = str(it.pop("_id"))\<close>.\<close>

fun expose_ids :: "dict list \<Rightarrow> error + dict list" where
  "expose_ids [] = Inr []"
| "expose_ids (it # items) =
     (case expose_id it of
        Inl e \<Rightarrow> Inl e
      | Inr it' \<Rightarrow> (case expose_ids items of Inl e \<Rightarrow> Inl e | Inr r \<Rightarrow> Inr (it' # r)))"

text \<open>Python's truth value of an \<open>Optional[str]\<close>: \<open>None\<close> and \<open>""\<close> are false.\<close>

definition truthy :: "string option \<Rightarrow> bool" where
  "truthy v = (case v of None \<Rightarrow> False | Some s \<Rightarrow> s \<noteq> [])"

subsection \<open>Journals\<close>

text \<open>
  A create route receives the request body; the framework validates it against the
  route's model before the function body runs, and answers a validation error
  otherwise.
\<close>

definition create_journal :: "database \<Rightarrow> jvalue \<Rightarrow> error + (dict \<times> store)" where
  "create_journal db body =
     (case validate_Journal body of
        Inl es \<Rightarrow> Inl (ValidationError es)
      | Inr journal \<Rightarrow>
          (case create_document db ''journal'' (dump_Journal journal) of
             Inl e \<Rightarrow> Inl e
           | Inr (inserted_id, db') \<Rightarrow> Inr ([(''id'', JStr inserted_id)], db')))"


subsection \<open>Journal pages\<close>

definition create_page :: "database \<Rightarrow> jvalue \<Rightarrow> error + (dict \<times> store)" where
  "create_page db body =
     (case validate_JournalPage body of
        Inl es \<Rightarrow> Inl (ValidationError es)
      | Inr page \<Rightarrow>
          (case create_document db ''journalpage'' (dump_JournalPage page) of
             Inl e \<Rightarrow> Inl e
           | Inr (inserted_id, db') \<Rightarrow> Inr ([(''id'', JStr inserted_id)], db')))"

definition get_page :: "database \<Rightarrow> string \<Rightarrow> string \<Rightarrow> error + dict" where
  "get_page db journal_id date =
     (case get_documents db ''journalpage''
             [(''journal_id'', Exact journal_id), (''date'', Exact date)] (Some 1) of
        Inl e \<Rightarrow> Inl e
      | Inr docs \<Rightarrow>
          (case docs of
             [] \<Rightarrow> Inl (HTTPException 404 ''Page not found'')
           | doc # _ \<Rightarrow> expose_id doc))"

subsection \<open>Calendar events, stickers, drawings\<close>

definition create_event :: "database \<Rightarrow> jvalue \<Rightarrow> error + (dict \<times> store)" where
  "create_event db body =
     (case validate_CalendarEvent body of
        Inl es \<Rightarrow> Inl (ValidationError es)
      | Inr event \<Rightarrow>
          (case create_document db ''calendarevent'' (dump_CalendarEvent event) of
             Inl e \<Rightarrow> Inl e
           | Inr (inserted_id, db') \<Rightarrow> Inr ([(''id'', JStr inserted_id)], db')))"

definition list_events :: "database \<Rightarrow> string option \<Rightarrow> string option \<Rightarrow> error + dict list" where
  "list_events db date month =
     (let filt =
        (if truthy date then [(''date'', Exact (the date))]
         else if truthy month then [(''date'', Regex (''^'' @ the month))]
         else [])
      in case get_documents db ''calendarevent'' filt None of
           Inl e \<Rightarrow> Inl e
         | Inr items \<Rightarrow> expose_ids items)"

definition create_sticker :: "database \<Rightarrow> jvalue \<Rightarrow> error + (dict \<times> store)" where
  "create_sticker db body =
     (case validate_Sticker body of
        Inl es \<Rightarrow> Inl (ValidationError es)
      | Inr sticker \<Rightarrow>
          (case create_document db ''sticker'' (dump_Sticker sticker) of
             Inl e \<Rightarrow> Inl e
           | Inr (inserted_id, db') \<Rightarrow> Inr ([(''id'', JStr inserted_id)], db')))"

definition list_stickers :: "database \<Rightarrow> string option \<Rightarrow> string option \<Rightarrow> error + dict list" where
  "list_stickers db date month =
     (let filt =
        (if truthy date then [(''date'', Exact (the date))]
         else if truthy month then [(''date'', Regex (''^'' @ the month))]
         else [])
      in case get_documents db ''sticker'' filt None of
           Inl e \<Rightarrow> Inl e
         | Inr items \<Rightarrow> expose_ids items)"

definition create_drawing :: "database \<Rightarrow> jvalue \<Rightarrow> error + (dict \<times> store)" where
  "create_drawing db body =
     (case validate_Drawing body of
        Inl es \<Rightarrow> Inl (ValidationError es)
      | Inr drawing \<Rightarrow>
          (case create_document db ''drawing'' (dump_Drawing drawing) of
             Inl e \<Rightarrow> Inl e
           | Inr (inserted_id, db') \<Rightarrow> Inr ([(''id'', JStr inserted_id)], db')))"

definition list_drawings :: "database \<Rightarrow> string option \<Rightarrow> string option \<Rightarrow> error + dict list" where
  "list_drawings db date month =
     (let filt =
        (if truthy date then [(''date'', Exact (the date))]
         else if truthy month then [(''date'', Regex (''^'' @ the month))]
         else [])
      in case get_documents db ''drawing'' filt None of
           Inl e \<Rightarrow> Inl e
         | Inr items \<Rightarrow> expose_ids items)"

subsection \<open>Day aggregate\<close>

text \<open>
  The response dictionary is filled key by key, in the order \<open>date\<close>, \<open>page\<close>,
  \<open>events\<close>, \<open>stickers\<close>, \<open>drawings\<close>; the first failing step ends the request.
\<close>

definition get_day :: "database \<Rightarrow> string \<Rightarrow> string option \<Rightarrow> error + dict" where
  "get_day db date journal_id =
     (let resp = [(''date'', JStr date)] in
      case get_documents db ''journalpage''
             (if truthy journal_id
              then [(''journal_id'', Exact (the journal_id)), (''date'', Exact date)]
              else [(''date'', Exact date)]) (Some 1) of
        Inl e \<Rightarrow> Inl e
      | Inr page_docs \<Rightarrow>
      (case (case page_docs of
               [] \<Rightarrow> Inr JNull
             | p # _ \<Rightarrow> (case expose_id p of Inl e \<Rightarrow> Inl e | Inr p' \<Rightarrow> Inr (JObj p'))) of
        Inl e \<Rightarrow> Inl e
      | Inr page \<Rightarrow>
      (let resp = AList.update ''page'' page resp in
       case get_documents db ''calendarevent'' [(''date'', Exact date)] None of
        Inl e \<Rightarrow> Inl e
      | Inr evts \<Rightarrow>
      (case expose_ids evts of
        Inl e \<Rightarrow> Inl e
      | Inr evts' \<Rightarrow>
      (let resp = AList.update ''events'' (JList (map JObj evts')) resp in
       case get_documents db ''sticker'' [(''date'', Exact date)] None of
        Inl e \<Rightarrow> Inl e
      | Inr st \<Rightarrow>
      (case expose_ids st of
        Inl e \<Rightarrow> Inl e
      | Inr st' \<Rightarrow>
      (let resp = AList.update ''stickers'' (JList (map JObj st')) resp in
       case get_documents db ''drawing'' [(''date'', Exact date)] None of
        Inl e \<Rightarrow> Inl e
      | Inr dr \<Rightarrow>
      (case expose_ids dr of
        Inl e \<Rightarrow> Inl e
      | Inr dr' \<Rightarrow> Inr (AList.update ''drawings'' (JList (map JObj dr')) resp)))))))))"

section \<open>Predicates of the properties\<close>

text \<open>
  A value is free of raw identifiers when no \<open>ObjectId\<close> occurs anywhere in it.
\<close>

fun oid_free :: "jvalue \<Rightarrow> bool" where
  "oid_free (JOid n) = False"
| "oid_free (JList vs) = list_all oid_free vs"
| "oid_free (JObj d) = list_all oid_free (map snd d)"
| "oid_free v = True"

text \<open>
  A stored document is well formed when its \<open>_id\<close> is an \<open>ObjectId\<close> and no other
  field holds one; a store is well formed when all its documents are. The empty store
  is, and every create route keeps a store so.
\<close>

definition wf_doc :: "dict \<Rightarrow> bool" where
  "wf_doc d \<longleftrightarrow>
     (case map_of d ''_id'' of Some (JOid n) \<Rightarrow> True | _ \<Rightarrow> False) \<and>
     list_all (\<lambda>(k, v). k = ''_id'' \<or> oid_free v) d"

definition wf_store :: "store \<Rightarrow> bool" where
  "wf_store s \<longleftrightarrow> (\<forall>c. list_all wf_doc (colls s c))"

text \<open>The stores that the create routes build, starting from the empty store.\<close>

inductive reachable :: "store \<Rightarrow> bool" where
  start: "reachable empty_store"
| journal: "reachable s \<Longrightarrow> create_journal (Some s) body = Inr (r, s') \<Longrightarrow> reachable s'"
| page: "reachable s \<Longrightarrow> create_page (Some s) body = Inr (r, s') \<Longrightarrow> reachable s'"
| event: "reachable s \<Longrightarrow> create_event (Some s) body = Inr (r, s') \<Longrightarrow> reachable s'"
| sticker: "reachable s \<Longrightarrow> create_sticker (Some s) body = Inr (r, s') \<Longrightarrow> reachable s'"
| drawing: "reachable s \<Longrightarrow> create_drawing (Some s) body = Inr (r, s') \<Longrightarrow> reachable s'"


text \<open>The documents dated exactly \<open>date\<close>, and those whose date starts with \<open>m\<close>.\<close>

definition date_is :: "string \<Rightarrow> dict \<Rightarrow> bool" where
  "date_is date doc \<longleftrightarrow> map_of doc ''date'' = Some (JStr date)"

definition date_starts_with :: "string \<Rightarrow> dict \<Rightarrow> bool" where
  "date_starts_with m doc =
     (case map_of doc ''date'' of Some (JStr s) \<Rightarrow> prefix m s | _ \<Rightarrow> False)"

text \<open>The pages of one journal on one date.\<close>

definition page_of :: "string \<Rightarrow> string \<Rightarrow> dict \<Rightarrow> bool" where
  "page_of journal_id date doc \<longleftrightarrow>
     map_of doc ''journal_id'' = Some (JStr journal_id) \<and> map_of doc ''date'' = Some (JStr date)"


section \<open>A sample store\<close>

text \<open>
  The store used by the worked examples: one journal, two pages of journal \<open>j1\<close> on
  the same date, three calendar events, two stickers and one drawing, as the create
  routes would have stored them.
\<close>

definition example_store :: store where
  "example_store =
     \<lparr>next_oid = 9,
      colls = (\<lambda>_. [])
        (''journal'' :=
           [AList.update ''_id'' (JOid 0) (dump_Journal
              \<lparr>j_title = ''Diary'', j_cover_style = ''pastel-pink'', j_paper_style = ''dotted'',
               j_owner = None\<rparr>)],
         ''journalpage'' :=
           [AList.update ''_id'' (JOid 1) (dump_JournalPage
              \<lparr>p_journal_id = ''j1'', p_date = ''2024-05-02'', p_content = ''first'',
               p_font = ''Inter'', p_font_size = 16, p_color = ''#1f2937'',
               p_alignment = ''left'', p_background = None\<rparr>),
            AList.update ''_id'' (JOid 2) (dump_JournalPage
              \<lparr>p_journal_id = ''j1'', p_date = ''2024-05-02'', p_content = ''second'',
               p_font = ''Inter'', p_font_size = 16, p_color = ''#1f2937'',
               p_alignment = ''left'', p_background = None\<rparr>)],
         ''calendarevent'' :=
           [AList.update ''_id'' (JOid 3) (dump_CalendarEvent
              \<lparr>e_date = ''2024-03-05'', e_title = ''Dentist'', e_highlight = None,
               e_emoji = None\<rparr>),
            AList.update ''_id'' (JOid 4) (dump_CalendarEvent
              \<lparr>e_date = ''2024-04-01'', e_title = ''Picnic'', e_highlight = None,
               e_emoji = None\<rparr>),
            AList.update ''_id'' (JOid 5) (dump_CalendarEvent
              \<lparr>e_date = ''2024-05-01'', e_title = ''Holiday'', e_highlight = Some ''red'',
               e_emoji = None\<rparr>)],
         ''sticker'' :=
           [AList.update ''_id'' (JOid 6) (dump_Sticker
              \<lparr>s_date = ''2024-05-01'', s_category = ''decor'', s_label = ''star'',
               s_x = 0, s_y = 0, s_size = 1\<rparr>),
            AList.update ''_id'' (JOid 7) (dump_Sticker
              \<lparr>s_date = ''2024-05-01'', s_category = ''nature'', s_label = ''leaf'',
               s_x = 1, s_y = 1, s_size = 1\<rparr>)],
         ''drawing'' :=
           [AList.update ''_id'' (JOid 8) (dump_Drawing
              \<lparr>d_date = ''2024-05-02'', d_tool = ''pen'', d_color = ''#111827'', d_size = 2,
               d_points = [\<lparr>sp_x = 0, sp_y = 0, sp_p = None, sp_t = None\<rparr>,
                           \<lparr>sp_x = 1, sp_y = 2, sp_p = None, sp_t = None\<rparr>]\<rparr>)])\<rparr>"

text \<open>A request body for a page of journal \<open>j1\<close> that leaves every default in place.\<close>

definition page_body :: dict where
  "page_body = [(''journal_id'', JStr ''j1''), (''date'', JStr ''2024-05-02'')]"

text \<open>
  The page filter of the day aggregate, and the records a day response carries: the
  page, if it is one, and the items of the three lists.
\<close>

definition day_page :: "string option \<Rightarrow> string \<Rightarrow> dict \<Rightarrow> bool" where
  "day_page journal_id date =
     (if truthy journal_id then page_of (the journal_id) date else date_is date)"









section \<open>Dictionaries and lists\<close>

lemmas eval_defs = example_store_def dump_Journal_def dump_JournalPage_def dump_CalendarEvent_def
  dump_Sticker_def dump_Drawing_def dump_StrokePoint_def dump_opt_def expose_id_def py_str_def
  truthy_def date_is_def date_starts_with_def page_of_def

lemma map_of_update_dict:
  "map_of (AList.update k v d) k' = (if k' = k then Some v else map_of d k')"
  by (simp add: update_conv')

lemma map_of_delete_dict:
  "map_of (AList.delete k d) k' = (if k' = k then None else map_of d k')"
  by (simp add: delete_conv')

lemma list_all_update:
  "list_all P d \<Longrightarrow> P (k, v) \<Longrightarrow> list_all P (AList.update k v d)"
  by (induction d) auto


lemma take_one_filter:
  "take (Suc 0) (filter P xs) = (case find P xs of None \<Rightarrow> [] | Some x \<Rightarrow> [x])"
  by (induction xs) auto


lemma find_Some_set: "find P xs = Some x \<Longrightarrow> x \<in> set xs \<and> P x"
  by (induction xs) (auto split: if_splits)

lemma list_all_filter_wf: "list_all P xs \<Longrightarrow> list_all P (filter Q xs)"
  by (induction xs) auto


section \<open>Regular expressions and filters\<close>





lemma matches_date_exact: "matches [(''date'', Exact date)] = date_is date"
  by (rule ext)
     (auto simp: matches_def date_is_def fval_accepts_def split: option.splits jvalue.splits)


lemma matches_page:
  "matches [(''journal_id'', Exact j), (''date'', Exact date)] = page_of j date"
  by (rule ext)
     (auto simp: matches_def page_of_def fval_accepts_def split: option.splits jvalue.splits)

lemma matches_empty: "filter (matches []) xs = xs"
  by (simp add: matches_def)

section \<open>Queries on a connected store\<close>

lemma get_documents_connected:
  "list_all (\<lambda>(k, v). fval_modelled v) filt \<Longrightarrow>
   get_documents (Some s) c filt limit =
     Inr (case limit of None \<Rightarrow> filter (matches filt) (colls s c)
          | Some n \<Rightarrow> take n (filter (matches filt) (colls s c)))"
  by (simp add: get_documents_def Let_def)

lemma query_by_date:
  "get_documents (Some s) c [(''date'', Exact date)] None = Inr (filter (date_is date) (colls s c))"
  by (simp add: get_documents_connected fval_modelled_def matches_date_exact)


lemma query_all: "get_documents (Some s) c [] None = Inr (colls s c)"
  by (simp add: get_documents_connected matches_empty)

lemma query_page:
  "get_documents (Some s) c [(''journal_id'', Exact j), (''date'', Exact date)] (Some (Suc 0)) =
     Inr (case find (page_of j date) (colls s c) of None \<Rightarrow> [] | Some p \<Rightarrow> [p])"
  by (simp add: get_documents_connected fval_modelled_def matches_page take_one_filter)

lemma query_page_by_date:
  "get_documents (Some s) c [(''date'', Exact date)] (Some (Suc 0)) =
     Inr (case find (date_is date) (colls s c) of None \<Rightarrow> [] | Some p \<Rightarrow> [p])"
  by (simp add: get_documents_connected fval_modelled_def matches_date_exact take_one_filter)

section \<open>Exposing identifiers\<close>

lemma expose_id_wf:
  assumes "wf_doc d"
  shows "\<exists>n. map_of d ''_id'' = Some (JOid n) \<and>
             expose_id d = Inr (AList.update ''id'' (JStr (oid_str n)) (AList.delete ''_id'' d))"
  using assms
  by (auto simp: wf_doc_def expose_id_def py_str_def split: option.splits jvalue.splits)

lemma expose_id_returns: "wf_doc d \<Longrightarrow> \<exists>d'. expose_id d = Inr d'"
  using expose_id_wf by blast

lemma oid_free_obj: "oid_free (JObj d) = list_all (\<lambda>(k, v). oid_free v) d"
  by (simp add: list.pred_map comp_def case_prod_unfold)


lemma expose_id_keeps:
  assumes "expose_id d = Inr d'" and "k \<noteq> ''_id''" and "k \<noteq> ''id''"
  shows "map_of d' k = map_of d k"
  using assms
  by (auto simp: expose_id_def map_of_update_dict map_of_delete_dict split: option.splits)

lemma expose_ids_returns: "list_all wf_doc ds \<Longrightarrow> \<exists>r. expose_ids ds = Inr r"
proof (induction ds)
  case Nil
  then show ?case by simp
next
  case (Cons d ds)
  then obtain d' r where "expose_id d = Inr d'" "expose_ids ds = Inr r"
    using expose_id_returns by fastforce
  then show ?case by simp
qed

lemma expose_ids_each:
  "expose_ids ds = Inr r \<Longrightarrow> list_all2 (\<lambda>d d'. expose_id d = Inr d') ds r"
  by (induction ds arbitrary: r) (auto split: sum.splits)


lemma wf_store_coll: "wf_store s \<Longrightarrow> list_all wf_doc (colls s c)"
  by (simp add: wf_store_def)

lemma wf_example_store: "wf_store example_store"
  by (simp add: wf_store_def wf_doc_def eval_defs)

section \<open>Listing by date or by month\<close>

text \<open>
  C3. In the list routes of calendar events, stickers and drawings the first non-empty
  of \<open>date\<close> and \<open>month\<close> decides the filter. With a non-empty \<open>date\<close> the result is
  the records dated exactly so, whatever \<open>month\<close> is; with an empty or absent \<open>date\<close>
  and a non-empty \<open>month\<close> the query is the month pattern alone; with neither, every
  record of the collection is returned, with no cap.
\<close>

theorem date_wins_over_month:
  "(truthy date \<longrightarrow>
      list_events (Some s) date month =
        expose_ids (filter (date_is (the date)) (colls s ''calendarevent'')) \<and>
      list_stickers (Some s) date month =
        expose_ids (filter (date_is (the date)) (colls s ''sticker'')) \<and>
      list_drawings (Some s) date month =
        expose_ids (filter (date_is (the date)) (colls s ''drawing''))) \<and>
   (\<not> truthy date \<and> truthy month \<longrightarrow>
      list_events (Some s) date month =
        (case get_documents (Some s) ''calendarevent'' [(''date'', Regex (''^'' @ the month))] None of
           Inl e \<Rightarrow> Inl e | Inr items \<Rightarrow> expose_ids items) \<and>
      list_stickers (Some s) date month =
        (case get_documents (Some s) ''sticker'' [(''date'', Regex (''^'' @ the month))] None of
           Inl e \<Rightarrow> Inl e | Inr items \<Rightarrow> expose_ids items) \<and>
      list_drawings (Some s) date month =
        (case get_documents (Some s) ''drawing'' [(''date'', Regex (''^'' @ the month))] None of
           Inl e \<Rightarrow> Inl e | Inr items \<Rightarrow> expose_ids items)) \<and>
   (\<not> truthy date \<and> \<not> truthy month \<longrightarrow>
      list_events (Some s) date month = expose_ids (colls s ''calendarevent'') \<and>
      list_stickers (Some s) date month = expose_ids (colls s ''sticker'') \<and>
      list_drawings (Some s) date month = expose_ids (colls s ''drawing''))"
  unfolding list_events_def list_stickers_def list_drawings_def Let_def
  by (simp add: query_by_date query_all)

text \<open>
  Of the events dated 2024-03-05, 2024-04-01 and 2024-05-01, the date 2024-04-01
  given together with the month 2024-03 selects the April event only.
\<close>

theorem date_wins_over_month_witness:
  "truthy (Some ''2024-04-01'') \<and> truthy (Some ''2024-03'') \<and>
   list_events (Some example_store) (Some ''2024-04-01'') (Some ''2024-03'') =
     Inr [[(''date'', JStr ''2024-04-01''), (''title'', JStr ''Picnic''),
           (''highlight'', JNull), (''emoji'', JNull), (''id'', JStr (oid_str 4))]]"
  using date_wins_over_month [of "Some ''2024-04-01''" example_store "Some ''2024-03''"]
  by (simp add: eval_defs)




section \<open>Looking a page up\<close>



text \<open>
  C9. Nothing keeps two pages from having the same journal identifier and date. On a
  well-formed connected store \<open>get_page\<close> then returns one page, the first matching
  document in storage order, whatever follows it.
\<close>

theorem first_matching_page:
  assumes "wf_store s"
    and "find (page_of journal_id date) (colls s ''journalpage'') = Some p"
  shows "get_page (Some s) journal_id date = expose_id p \<and> (\<exists>doc. expose_id p = Inr doc)"
proof -
  from assms(2) have "p \<in> set (colls s ''journalpage'')"
    using find_Some_set by fastforce
  with assms(1) have "wf_doc p"
    using wf_store_coll [of s "''journalpage''"] by (simp add: list_all_iff)
  then have "\<exists>doc. expose_id p = Inr doc"
    by (rule expose_id_returns)
  moreover from assms(2) have "get_page (Some s) journal_id date = expose_id p"
    by (simp add: get_page_def query_page)
  ultimately show ?thesis by simp
qed

text \<open>
  The sample store has two pages of journal \<open>j1\<close> dated 2024-05-02; the one stored
  first, with the content \<open>first\<close>, is returned.
\<close>

theorem first_matching_page_witness:
  "wf_store example_store \<and>
   length (filter (page_of ''j1'' ''2024-05-02'') (colls example_store ''journalpage'')) = 2 \<and>
   get_page (Some example_store) ''j1'' ''2024-05-02'' =
     Inr [(''journal_id'', JStr ''j1''), (''date'', JStr ''2024-05-02''),
          (''content'', JStr ''first''), (''font'', JStr ''Inter''), (''font_size'', JInt 16),
          (''color'', JStr ''#1f2937''), (''alignment'', JStr ''left''),
          (''background'', JNull), (''id'', JStr (oid_str 1))]"
proof -
  have "find (page_of ''j1'' ''2024-05-02'') (colls example_store ''journalpage'') =
          Some (hd (colls example_store ''journalpage''))"
    by (simp add: eval_defs)
  from first_matching_page [OF wf_example_store this]
  have "get_page (Some example_store) ''j1'' ''2024-05-02'' =
          Inr [(''journal_id'', JStr ''j1''), (''date'', JStr ''2024-05-02''),
               (''content'', JStr ''first''), (''font'', JStr ''Inter''), (''font_size'', JInt 16),
               (''color'', JStr ''#1f2937''), (''alignment'', JStr ''left''),
               (''background'', JNull), (''id'', JStr (oid_str 1))]"
    by (simp add: eval_defs)
  moreover
  have "length (filter (page_of ''j1'' ''2024-05-02'') (colls example_store ''journalpage'')) = 2"
    by (simp add: eval_defs)
  ultimately show ?thesis
    using wf_example_store by blast
qed

section \<open>Validation\<close>

lemma required_update_other:
  "k' \<noteq> k \<Longrightarrow> required vf l (AList.update k v d) k' = required vf l d k'"
  by (simp add: required_def map_of_update_dict)

lemma with_default_update_other:
  "k' \<noteq> k \<Longrightarrow> with_default vf dflt l (AList.update k v d) k' = with_default vf dflt l d k'"
  by (simp add: with_default_def map_of_update_dict)

lemma optional_update_other:
  "k' \<noteq> k \<Longrightarrow> optional vf l (AList.update k v d) k' = optional vf l d k'"
  by (simp add: optional_def map_of_update_dict)

lemma required_update_same: "required vf l (AList.update k v d) k = vf (l @ [Fld k]) v"
  by (simp add: required_def map_of_update_dict)

lemma with_default_update_same:
  "with_default vf dflt l (AList.update k v d) k = vf (l @ [Fld k]) v"
  by (simp add: with_default_def map_of_update_dict)

lemma validate_Journal_Inr:
  "validate_Journal (JObj d) = Inr j \<longleftrightarrow>
     required str_value [] d ''title'' = Inr (j_title j) \<and>
     with_default str_value ''pastel-pink'' [] d ''cover_style'' = Inr (j_cover_style j) \<and>
     with_default str_value ''dotted'' [] d ''paper_style'' = Inr (j_paper_style j) \<and>
     optional str_value [] d ''owner'' = Inr (j_owner j)"
  unfolding validate_Journal_def Let_def
  apply (cases "required str_value [] d ''title''"; simp)
  apply (cases "with_default str_value ''pastel-pink'' [] d ''cover_style''"; simp)
  apply (cases "with_default str_value ''dotted'' [] d ''paper_style''"; simp)
  apply (cases "optional str_value [] d ''owner''"; simp)
  apply (cases j; auto)
  done

lemma validate_JournalPage_Inr:
  "validate_JournalPage (JObj d) = Inr p \<longleftrightarrow>
     required str_value [] d ''journal_id'' = Inr (p_journal_id p) \<and>
     required str_value [] d ''date'' = Inr (p_date p) \<and>
     with_default str_value '''' [] d ''content'' = Inr (p_content p) \<and>
     with_default str_value ''Inter'' [] d ''font'' = Inr (p_font p) \<and>
     with_default (\<lambda>l. int_value l 8 64) 16 [] d ''font_size'' = Inr (p_font_size p) \<and>
     with_default str_value ''#1f2937'' [] d ''color'' = Inr (p_color p) \<and>
     with_default str_value ''left'' [] d ''alignment'' = Inr (p_alignment p) \<and>
     optional str_value [] d ''background'' = Inr (p_background p)"
  unfolding validate_JournalPage_def Let_def
  apply (cases "required str_value [] d ''journal_id''"; simp)
  apply (cases "required str_value [] d ''date''"; simp)
  apply (cases "with_default str_value '''' [] d ''content''"; simp)
  apply (cases "with_default str_value ''Inter'' [] d ''font''"; simp)
  apply (cases "with_default (\<lambda>l. int_value l 8 64) 16 [] d ''font_size''"; simp)
  apply (cases "with_default str_value ''#1f2937'' [] d ''color''"; simp)
  apply (cases "with_default str_value ''left'' [] d ''alignment''"; simp)
  apply (cases "optional str_value [] d ''background''"; simp)
  apply (cases p; auto)
  done

text \<open>
  C4. Take a page body that validates, and put an integer \<open>n\<close> under \<open>font_size\<close>,
  leaving the other fields as they are. Validation fails when \<open>n < 8\<close> and when
  \<open>n > 64\<close>, with the error of the violated bound, and succeeds for every \<open>n\<close> from
  8 to 64, both included.
\<close>

theorem font_size_bounds:
  assumes "validate_JournalPage (JObj d) = Inr p"
  shows "validate_JournalPage (JObj (AList.update ''font_size'' (JInt n) d)) =
           (if n < 8 then Inl [([Fld ''font_size''], GreaterThanEqual 8)]
            else if 64 < n then Inl [([Fld ''font_size''], LessThanEqual 64)]
            else Inr (p\<lparr>p_font_size := n\<rparr>))"
proof -
  from assms have f:
    "required str_value [] d ''journal_id'' = Inr (p_journal_id p)"
    "required str_value [] d ''date'' = Inr (p_date p)"
    "with_default str_value '''' [] d ''content'' = Inr (p_content p)"
    "with_default str_value ''Inter'' [] d ''font'' = Inr (p_font p)"
    "with_default str_value ''#1f2937'' [] d ''color'' = Inr (p_color p)"
    "with_default str_value ''left'' [] d ''alignment'' = Inr (p_alignment p)"
    "optional str_value [] d ''background'' = Inr (p_background p)"
    by (simp_all add: validate_JournalPage_Inr)
  show ?thesis
    unfolding validate_JournalPage_def Let_def
    by (cases p)
       (simp add: f required_update_other with_default_update_other optional_update_other
          with_default_update_same int_value_def errs_def)
qed

text \<open>
  A body with only the two required fields validates; with the font sizes 8 and 64
  it still does, with 7 and 65 it does not.
\<close>

theorem font_size_bounds_witness:
  "validate_JournalPage (JObj page_body) =
     Inr \<lparr>p_journal_id = ''j1'', p_date = ''2024-05-02'', p_content = '''', p_font = ''Inter'',
          p_font_size = 16, p_color = ''#1f2937'', p_alignment = ''left'',
          p_background = None\<rparr> \<and>
   validate_JournalPage (JObj (AList.update ''font_size'' (JInt 8) page_body)) =
     Inr \<lparr>p_journal_id = ''j1'', p_date = ''2024-05-02'', p_content = '''', p_font = ''Inter'',
          p_font_size = 8, p_color = ''#1f2937'', p_alignment = ''left'',
          p_background = None\<rparr> \<and>
   validate_JournalPage (JObj (AList.update ''font_size'' (JInt 64) page_body)) =
     Inr \<lparr>p_journal_id = ''j1'', p_date = ''2024-05-02'', p_content = '''', p_font = ''Inter'',
          p_font_size = 64, p_color = ''#1f2937'', p_alignment = ''left'',
          p_background = None\<rparr> \<and>
   validate_JournalPage (JObj (AList.update ''font_size'' (JInt 7) page_body)) =
     Inl [([Fld ''font_size''], GreaterThanEqual 8)] \<and>
   validate_JournalPage (JObj (AList.update ''font_size'' (JInt 65) page_body)) =
     Inl [([Fld ''font_size''], LessThanEqual 64)]"
proof -
  have v: "validate_JournalPage (JObj page_body) =
     Inr \<lparr>p_journal_id = ''j1'', p_date = ''2024-05-02'', p_content = '''', p_font = ''Inter'',
          p_font_size = 16, p_color = ''#1f2937'', p_alignment = ''left'',
          p_background = None\<rparr>"
    by (simp add: validate_JournalPage_def page_body_def required_def with_default_def
        optional_def str_value_def)
  from v font_size_bounds [OF v, of 8] font_size_bounds [OF v, of 64]
    font_size_bounds [OF v, of 7] font_size_bounds [OF v, of 65]
  show ?thesis by simp
qed

section \<open>The day aggregate and the exposed identifier\<close>

lemma wf_doc_member: "wf_store s \<Longrightarrow> d \<in> set (colls s c) \<Longrightarrow> wf_doc d"
  using wf_store_coll [of s c] by (simp add: list_all_iff)

lemma get_day_connected:
  assumes "wf_store s"
  shows "\<exists>page evts st dr.
     get_day (Some s) date journal_id =
       Inr [(''date'', JStr date), (''page'', page), (''events'', JList (map JObj evts)),
            (''stickers'', JList (map JObj st)), (''drawings'', JList (map JObj dr))] \<and>
     (case find (day_page journal_id date) (colls s ''journalpage'') of
        None \<Rightarrow> page = JNull
      | Some p \<Rightarrow> \<exists>p'. expose_id p = Inr p' \<and> page = JObj p') \<and>
     expose_ids (filter (date_is date) (colls s ''calendarevent'')) = Inr evts \<and>
     expose_ids (filter (date_is date) (colls s ''sticker'')) = Inr st \<and>
     expose_ids (filter (date_is date) (colls s ''drawing'')) = Inr dr"
proof -
  have q: "get_documents (Some s) ''journalpage''
             (if truthy journal_id
              then [(''journal_id'', Exact (the journal_id)), (''date'', Exact date)]
              else [(''date'', Exact date)]) (Some 1) =
           Inr (case find (day_page journal_id date) (colls s ''journalpage'') of
                  None \<Rightarrow> [] | Some p \<Rightarrow> [p])"
    by (simp add: day_page_def query_page query_page_by_date)
  obtain evts where evts: "expose_ids (filter (date_is date) (colls s ''calendarevent'')) = Inr evts"
    using expose_ids_returns [OF list_all_filter_wf [OF wf_store_coll [OF assms]]] by blast
  obtain st where st: "expose_ids (filter (date_is date) (colls s ''sticker'')) = Inr st"
    using expose_ids_returns [OF list_all_filter_wf [OF wf_store_coll [OF assms]]] by blast
  obtain dr where dr: "expose_ids (filter (date_is date) (colls s ''drawing'')) = Inr dr"
    using expose_ids_returns [OF list_all_filter_wf [OF wf_store_coll [OF assms]]] by blast
  show ?thesis
  proof (cases "find (day_page journal_id date) (colls s ''journalpage'')")
    case None
    then show ?thesis
      unfolding get_day_def Let_def q
      by (simp add: query_by_date evts st dr)
  next
    case (Some p)
    then have "p \<in> set (colls s ''journalpage'')"
      using find_Some_set by fastforce
    then obtain p' where "expose_id p = Inr p'"
      using expose_id_returns wf_doc_member [OF assms] by blast
    with Some show ?thesis
      unfolding get_day_def Let_def q
      by (simp add: query_by_date evts st dr)
  qed
qed








text \<open>
  C6. On a well-formed connected store the day aggregate returns, for every date, a
  dictionary with exactly the keys \<open>date\<close>, \<open>page\<close>, \<open>events\<close>, \<open>stickers\<close> and
  \<open>drawings\<close>: the requested date; the first matching page with its identifier
  exposed, or \<open>None\<close> when no page matches; and the records of each kind dated exactly
  so, all of them, in storage order, each drawing with the \<open>points\<close> it was stored
  with.
\<close>

theorem day_aggregate_shape:
  assumes "wf_store s"
  shows "\<exists>page evts st dr.
     get_day (Some s) date journal_id =
       Inr [(''date'', JStr date), (''page'', page), (''events'', JList (map JObj evts)),
            (''stickers'', JList (map JObj st)), (''drawings'', JList (map JObj dr))] \<and>
     (case find (day_page journal_id date) (colls s ''journalpage'') of
        None \<Rightarrow> page = JNull
      | Some p \<Rightarrow> \<exists>p'. expose_id p = Inr p' \<and> page = JObj p') \<and>
     expose_ids (filter (date_is date) (colls s ''calendarevent'')) = Inr evts \<and>
     expose_ids (filter (date_is date) (colls s ''sticker'')) = Inr st \<and>
     expose_ids (filter (date_is date) (colls s ''drawing'')) = Inr dr \<and>
     list_all2 (\<lambda>doc it. map_of it ''points'' = map_of doc ''points'')
       (filter (date_is date) (colls s ''drawing'')) dr"
proof -
  from get_day_connected [OF assms, of date journal_id]
  obtain page evts st dr where
    r: "get_day (Some s) date journal_id =
       Inr [(''date'', JStr date), (''page'', page), (''events'', JList (map JObj evts)),
            (''stickers'', JList (map JObj st)), (''drawings'', JList (map JObj dr))]"
      "case find (day_page journal_id date) (colls s ''journalpage'') of
        None \<Rightarrow> page = JNull
      | Some p \<Rightarrow> \<exists>p'. expose_id p = Inr p' \<and> page = JObj p'"
      "expose_ids (filter (date_is date) (colls s ''calendarevent'')) = Inr evts"
      "expose_ids (filter (date_is date) (colls s ''sticker'')) = Inr st"
      "expose_ids (filter (date_is date) (colls s ''drawing'')) = Inr dr"
    by blast
  from r(5) have "list_all2 (\<lambda>doc it. expose_id doc = Inr it)
       (filter (date_is date) (colls s ''drawing'')) dr"
    by (rule expose_ids_each)
  then have "list_all2 (\<lambda>doc it. map_of it ''points'' = map_of doc ''points'')
       (filter (date_is date) (colls s ''drawing'')) dr"
    by (rule list_all2_mono) (simp add: expose_id_keeps)
  with r show ?thesis by blast
qed

text \<open>
  C10. For the day aggregate an empty \<open>journal_id\<close> is the same as none: the two
  requests give the same result on every database, and the page returned is the first
  stored page of that date, whichever journal it belongs to.
\<close>

theorem empty_journal_id_is_absent:
  "get_day db date (Some '''') = get_day db date None \<and>
   (wf_store s \<and> find (date_is date) (colls s ''journalpage'') = Some p \<longrightarrow>
      (\<exists>resp p'. get_day (Some s) date (Some '''') = Inr resp \<and> expose_id p = Inr p' \<and>
         map_of resp ''page'' = Some (JObj p')))"
proof (intro conjI impI)
  show "get_day db date (Some '''') = get_day db date None"
    by (simp add: get_day_def truthy_def)
next
  assume a: "wf_store s \<and> find (date_is date) (colls s ''journalpage'') = Some p"
  then have "find (day_page (Some '''') date) (colls s ''journalpage'') = Some p"
    by (simp add: day_page_def truthy_def)
  with get_day_connected [of s date "Some ''''"] a
  show "\<exists>resp p'. get_day (Some s) date (Some '''') = Inr resp \<and> expose_id p = Inr p' \<and>
         map_of resp ''page'' = Some (JObj p')"
    by auto
qed

lemmas query_defs = get_documents_def fval_modelled_def matches_def fval_accepts_def Let_def

text \<open>
  The sample store on 2024-05-01: no page, one event, two stickers, no drawing.
\<close>

theorem day_aggregate_shape_witness:
  "wf_store example_store \<and>
   get_day (Some example_store) ''2024-05-01'' None =
     Inr [(''date'', JStr ''2024-05-01''),
          (''page'', JNull),
          (''events'', JList [JObj
             [(''date'', JStr ''2024-05-01''), (''title'', JStr ''Holiday''),
              (''highlight'', JStr ''red''), (''emoji'', JNull), (''id'', JStr (oid_str 5))]]),
          (''stickers'', JList
             [JObj [(''date'', JStr ''2024-05-01''), (''category'', JStr ''decor''),
                    (''label'', JStr ''star''), (''x'', JFloat 0), (''y'', JFloat 0),
                    (''size'', JFloat 1), (''id'', JStr (oid_str 6))],
              JObj [(''date'', JStr ''2024-05-01''), (''category'', JStr ''nature''),
                    (''label'', JStr ''leaf''), (''x'', JFloat 1), (''y'', JFloat 1),
                    (''size'', JFloat 1), (''id'', JStr (oid_str 7))]]),
          (''drawings'', JList [])]"
proof -
  from day_aggregate_shape [OF wf_example_store, of "''2024-05-01''" None]
  have "get_day (Some example_store) ''2024-05-01'' None =
     Inr [(''date'', JStr ''2024-05-01''),
          (''page'', JNull),
          (''events'', JList [JObj
             [(''date'', JStr ''2024-05-01''), (''title'', JStr ''Holiday''),
              (''highlight'', JStr ''red''), (''emoji'', JNull), (''id'', JStr (oid_str 5))]]),
          (''stickers'', JList
             [JObj [(''date'', JStr ''2024-05-01''), (''category'', JStr ''decor''),
                    (''label'', JStr ''star''), (''x'', JFloat 0), (''y'', JFloat 0),
                    (''size'', JFloat 1), (''id'', JStr (oid_str 6))],
              JObj [(''date'', JStr ''2024-05-01''), (''category'', JStr ''nature''),
                    (''label'', JStr ''leaf''), (''x'', JFloat 1), (''y'', JFloat 1),
                    (''size'', JFloat 1), (''id'', JStr (oid_str 7))]]),
          (''drawings'', JList [])]"
    by (auto simp: day_page_def eval_defs)
  then show ?thesis using wf_example_store by blast
qed


text \<open>
  On 2024-05-02 the page of journal \<open>j1\<close> is returned for the empty journal
  identifier.
\<close>

theorem empty_journal_id_is_absent_witness:
  "wf_store example_store \<and>
   find (date_is ''2024-05-02'') (colls example_store ''journalpage'') =
     Some (hd (colls example_store ''journalpage'')) \<and>
   get_day (Some example_store) ''2024-05-02'' (Some '''') =
     Inr [(''date'', JStr ''2024-05-02''),
          (''page'', JObj
             [(''journal_id'', JStr ''j1''), (''date'', JStr ''2024-05-02''),
              (''content'', JStr ''first''), (''font'', JStr ''Inter''), (''font_size'', JInt 16),
              (''color'', JStr ''#1f2937''), (''alignment'', JStr ''left''),
              (''background'', JNull), (''id'', JStr (oid_str 1))]),
          (''events'', JList []),
          (''stickers'', JList []),
          (''drawings'', JList [JObj
             [(''date'', JStr ''2024-05-02''), (''tool'', JStr ''pen''),
              (''color'', JStr ''#111827''), (''size'', JFloat 2),
              (''points'', JList
                 [JObj [(''x'', JFloat 0), (''y'', JFloat 0), (''p'', JNull), (''t'', JNull)],
                  JObj [(''x'', JFloat 1), (''y'', JFloat 2), (''p'', JNull), (''t'', JNull)]]),
              (''id'', JStr (oid_str 8))]])]"
proof -
  have f: "find (date_is ''2024-05-02'') (colls example_store ''journalpage'') =
     Some (hd (colls example_store ''journalpage''))"
    by (simp add: eval_defs)
  have "get_day (Some example_store) ''2024-05-02'' None =
     Inr [(''date'', JStr ''2024-05-02''),
          (''page'', JObj
             [(''journal_id'', JStr ''j1''), (''date'', JStr ''2024-05-02''),
              (''content'', JStr ''first''), (''font'', JStr ''Inter''), (''font_size'', JInt 16),
              (''color'', JStr ''#1f2937''), (''alignment'', JStr ''left''),
              (''background'', JNull), (''id'', JStr (oid_str 1))]),
          (''events'', JList []),
          (''stickers'', JList []),
          (''drawings'', JList [JObj
             [(''date'', JStr ''2024-05-02''), (''tool'', JStr ''pen''),
              (''color'', JStr ''#111827''), (''size'', JFloat 2),
              (''points'', JList
                 [JObj [(''x'', JFloat 0), (''y'', JFloat 0), (''p'', JNull), (''t'', JNull)],
                  JObj [(''x'', JFloat 1), (''y'', JFloat 2), (''p'', JNull), (''t'', JNull)]]),
              (''id'', JStr (oid_str 8))]])]"
    by (simp add: get_day_def query_defs eval_defs)
  with f wf_example_store
    empty_journal_id_is_absent [of "Some example_store" "''2024-05-02''" example_store
      "hd (colls example_store ''journalpage'')"]
  show ?thesis by simp
qed

section \<open>Creating a journal\<close>

lemma create_document_connected:
  "create_document (Some s) c data =
     Inr (oid_str (next_oid s),
          s\<lparr>next_oid := Suc (next_oid s),
            colls := (colls s)(c := colls s c @ [AList.update ''_id'' (JOid (next_oid s)) data])\<rparr>)"
  by (simp add: create_document_def Let_def)

text \<open>
  A body whose title is the empty string validates, and the journal is stored: the
  model declares \<open>title\<close> required, with no minimal length.
\<close>

theorem empty_title_counterexample:
  "create_journal (Some empty_store) (JObj [(''title'', JStr '''')]) =
     Inr ([(''id'', JStr (oid_str 0))],
          empty_store
            \<lparr>next_oid := 1,
             colls := (colls empty_store)
               (''journal'' :=
                  [[(''title'', JStr ''''), (''cover_style'', JStr ''pastel-pink''),
                    (''paper_style'', JStr ''dotted''), (''owner'', JNull),
                    (''_id'', JOid 0)]])\<rparr>)"
  by (simp add: create_journal_def validate_Journal_def required_def with_default_def
      optional_def str_value_def create_document_connected empty_store_def dump_Journal_def
      dump_opt_def)

text \<open>
  C2, as amended. A journal body whose \<open>title\<close> is absent or not a string fails with
  a validation error, and nothing is stored (a failed request returns no store). A
  body that validates still validates when its title is replaced by any string
  \<open>t\<close>, the empty string included, and the journal is then stored with that title.
\<close>

theorem journal_title_required:
  "((case map_of d ''title'' of Some (JStr t) \<Rightarrow> False | _ \<Rightarrow> True) \<longrightarrow>
      (\<exists>es. create_journal db (JObj d) = Inl (ValidationError es))) \<and>
   (validate_Journal (JObj d) = Inr j \<longrightarrow>
      validate_Journal (JObj (AList.update ''title'' (JStr t) d)) = Inr (j\<lparr>j_title := t\<rparr>) \<and>
      create_journal (Some s) (JObj (AList.update ''title'' (JStr t) d)) =
        Inr ([(''id'', JStr (oid_str (next_oid s)))],
             s\<lparr>next_oid := Suc (next_oid s),
               colls := (colls s)(''journal'' := colls s ''journal'' @
                 [AList.update ''_id'' (JOid (next_oid s)) (dump_Journal (j\<lparr>j_title := t\<rparr>))])\<rparr>))"
proof (intro conjI impI)
  assume a: "case map_of d ''title'' of Some (JStr t) \<Rightarrow> False | _ \<Rightarrow> True"
  have "\<And>j. validate_Journal (JObj d) \<noteq> Inr j"
    using a
    by (auto simp: validate_Journal_Inr required_def str_value_def
        split: option.splits jvalue.splits)
  then obtain es where "validate_Journal (JObj d) = Inl es"
    by (cases "validate_Journal (JObj d)") auto
  then show "\<exists>es. create_journal db (JObj d) = Inl (ValidationError es)"
    by (simp add: create_journal_def)
next
  assume v: "validate_Journal (JObj d) = Inr j"
  show v': "validate_Journal (JObj (AList.update ''title'' (JStr t) d)) = Inr (j\<lparr>j_title := t\<rparr>)"
    using v
    by (simp add: validate_Journal_Inr required_update_same with_default_update_other
        optional_update_other str_value_def)
  show "create_journal (Some s) (JObj (AList.update ''title'' (JStr t) d)) =
        Inr ([(''id'', JStr (oid_str (next_oid s)))],
             s\<lparr>next_oid := Suc (next_oid s),
               colls := (colls s)(''journal'' := colls s ''journal'' @
                 [AList.update ''_id'' (JOid (next_oid s)) (dump_Journal (j\<lparr>j_title := t\<rparr>))])\<rparr>)"
    by (simp add: create_journal_def v' create_document_connected)
qed

theorem journal_title_required_witness:
  "(case map_of [(''cover_style'', JStr ''plain'')] ''title'' of
      Some (JStr t) \<Rightarrow> False | _ \<Rightarrow> True) \<and>
   (\<exists>es. create_journal (Some empty_store) (JObj [(''cover_style'', JStr ''plain'')]) =
      Inl (ValidationError es)) \<and>
   validate_Journal (JObj [(''title'', JStr ''Diary'')]) =
     Inr \<lparr>j_title = ''Diary'', j_cover_style = ''pastel-pink'', j_paper_style = ''dotted'',
          j_owner = None\<rparr> \<and>
   validate_Journal (JObj (AList.update ''title'' (JStr '''') [(''title'', JStr ''Diary'')])) =
     Inr \<lparr>j_title = '''', j_cover_style = ''pastel-pink'', j_paper_style = ''dotted'',
          j_owner = None\<rparr>"
proof -
  have a: "case map_of [(''cover_style'', JStr ''plain'')] ''title'' of
      Some (JStr t) \<Rightarrow> False | _ \<Rightarrow> True"
    by simp
  have v: "validate_Journal (JObj [(''title'', JStr ''Diary'')]) =
     Inr \<lparr>j_title = ''Diary'', j_cover_style = ''pastel-pink'', j_paper_style = ''dotted'',
          j_owner = None\<rparr>"
    by (simp add: validate_Journal_def required_def with_default_def optional_def str_value_def)
  from a v
    journal_title_required [of "[(''cover_style'', JStr ''plain'')]" "Some empty_store"]
    journal_title_required [of "[(''title'', JStr ''Diary'')]" _ _ "''''"]
  show ?thesis by simp
qed

section \<open>A validated record agrees with its request body\<close>





















section \<open>The create routes keep the store well formed\<close>

lemma wf_empty_store: "wf_store empty_store"
  by (simp add: wf_store_def empty_store_def)

lemma wf_doc_stored:
  assumes "oid_free (JObj data)"
  shows "wf_doc (AList.update ''_id'' (JOid n) data)"
proof -
  from assms have "list_all (\<lambda>(k, v). k = ''_id'' \<or> oid_free v) data"
    unfolding oid_free_obj by (induction data) auto
  then have "list_all (\<lambda>(k, v). k = ''_id'' \<or> oid_free v) (AList.update ''_id'' (JOid n) data)"
    by (rule list_all_update) simp
  then show ?thesis
    by (simp add: wf_doc_def map_of_update_dict)
qed

lemma wf_create_document:
  assumes "wf_store s" and "oid_free (JObj data)"
    and "create_document (Some s) c data = Inr (i, s')"
  shows "wf_store s'"
  using assms wf_doc_stored [OF assms(2)]
  by (auto simp: create_document_connected wf_store_def)

lemma dump_oid_free:
  "oid_free (JObj (dump_Journal j))"
  "oid_free (JObj (dump_JournalPage p))"
  "oid_free (JObj (dump_CalendarEvent e))"
  "oid_free (JObj (dump_Sticker st))"
  "oid_free (JObj (dump_Drawing dr))"
  by (simp_all add: dump_Journal_def dump_JournalPage_def dump_CalendarEvent_def
      dump_Sticker_def dump_Drawing_def dump_StrokePoint_def dump_opt_def list_all_iff
      split: option.splits)

lemma create_routes_keep_wf:
  assumes "wf_store s"
  shows "create_journal (Some s) body = Inr (r, s') \<Longrightarrow> wf_store s'"
    and "create_page (Some s) body = Inr (r, s') \<Longrightarrow> wf_store s'"
    and "create_event (Some s) body = Inr (r, s') \<Longrightarrow> wf_store s'"
    and "create_sticker (Some s) body = Inr (r, s') \<Longrightarrow> wf_store s'"
    and "create_drawing (Some s) body = Inr (r, s') \<Longrightarrow> wf_store s'"
  using wf_create_document [OF assms dump_oid_free(1)]
    wf_create_document [OF assms dump_oid_free(2)]
    wf_create_document [OF assms dump_oid_free(3)]
    wf_create_document [OF assms dump_oid_free(4)]
    wf_create_document [OF assms dump_oid_free(5)]
  by (auto simp: create_journal_def create_page_def create_event_def create_sticker_def
      create_drawing_def split: sum.splits)

lemma reachable_wf: "reachable s \<Longrightarrow> wf_store s"
  by (induction rule: reachable.induct)
     (auto simp: wf_empty_store intro: create_routes_keep_wf)






section \<open>Create, then read back\<close>











end
